theory Spec2Isabelle
  imports Complex_Main
begin

section \<open>The Mandelbrot explorer component (\<open>mandelbrot-explorer.tsx\<close>)\<close>

text \<open>
  The component keeps its navigation state in React state cells and changes it in event
  handlers. A handler reads the values of the render it was created in and queues the
  new ones, so each handler is a function from the state before to the state after.

  Numbers of the source are JavaScript numbers. They are modelled by \<open>real\<close> where the
  source computes plane coordinates and scales, and by \<open>int\<close> where the number is a count
  (the iteration counter, the result of \<open>Math.floor\<close>, a colour channel). Rounding
  and \<open>NaN\<close> are outside this model. The scale \<open>zoom\<close> is the one number that a session
  lets grow without bound, since every zoom-in doubles it; it is a \<open>number\<close>, a real or
  \<open>Infinity\<close>, with the overflow of a double written out. Where the source divides,
  the theorems below carry the hypothesis that the divisor is positive, so HOL's
  \<open>x / 0 = 0\<close> is never what a theorem rests on.
\<close>

subsection \<open>Errors of the platform\<close>

text \<open>
  \<open>TypeError\<close>: reading a property of \<open>undefined\<close> (an array read out of range gives
  \<open>undefined\<close>, and the handler then indexes it).
  \<open>IndexSizeError\<close>: the DOM exception of \<open>CanvasRenderingContext2D.getImageData\<close> for a
  rectangle whose width or height is zero.
\<close>

datatype dom_error = TypeError | IndexSizeError

subsection \<open>The scale as a double\<close>

text \<open>
  A finite double is below \<open>2 ^ 1024\<close> in magnitude, and a product that reaches
  \<open>2 ^ 1024\<close> is \<open>Infinity\<close>. Doubling a double is exact, so \<open>zoom * 2\<close> is twice the
  number or \<open>Infinity\<close>, as in the program; a product with another factor is taken
  without rounding, as everywhere in this model. The scale of the component is
  positive (it starts at 200 and is doubled or restored), so \<open>-Infinity\<close> and \<open>NaN\<close>
  are no members of this type, and \<open>Num r\<close> stands for a double only for
  \<open>\<bar>r\<bar> < 2 ^ 1024\<close>.
\<close>

datatype number = Num real | Infinity

definition overflow_bound :: real where
  "overflow_bound = 2 ^ 1024"

text \<open>\<open>z * m\<close> for a scale \<open>z\<close> and a positive factor \<open>m\<close>.\<close>

fun number_times :: "number \<Rightarrow> real \<Rightarrow> number" where
  "number_times (Num r) m = (if r * m < overflow_bound then Num (r * m) else Infinity)"
| "number_times Infinity m = Infinity"

text \<open>\<open>a / z\<close> for a finite \<open>a\<close>: a finite number divided by \<open>Infinity\<close> is 0.\<close>

fun divided_by :: "real \<Rightarrow> number \<Rightarrow> real" where
  "divided_by a (Num r) = a / r"
| "divided_by a Infinity = 0"

text \<open>
  \<open>Math.min(1000, Math.floor(100 * Math.log2(z)))\<close>, the expression of lines 235 and
  244. \<open>Math.log2(Infinity)\<close> is \<open>Infinity\<close>, and so are its product with 100 and the
  floor of that; the minimum with 1000 is 1000.
\<close>

fun iteration_budget :: "number \<Rightarrow> int" where
  "iteration_budget (Num r) = min 1000 \<lfloor>100 * log 2 r\<rfloor>"
| "iteration_budget Infinity = 1000"

text \<open>The scales the theorems speak about: positive, and a double.\<close>

fun positive_number :: "number \<Rightarrow> bool" where
  "positive_number (Num r) = (0 < r)"
| "positive_number Infinity = True"

fun representable :: "number \<Rightarrow> bool" where
  "representable (Num r) = (\<bar>r\<bar> < overflow_bound)"
| "representable Infinity = True"

subsection \<open>Palettes\<close>

type_synonym rgb = "int \<times> int \<times> int"
type_synonym ColorPalette = "rgb list"

definition colorPalettes :: "string \<rightharpoonup> ColorPalette" where
  "colorPalettes = map_of
     [(''initial'',
         [(0, 7, 100), (32, 107, 203), (237, 255, 255), (255, 170, 0),
          (0, 2, 0), (237, 255, 255), (255, 170, 0), (0, 2, 0)]),
      (''original'',
         [(66, 30, 15), (25, 7, 26), (9, 1, 47), (4, 4, 73),
          (0, 7, 100), (12, 44, 138), (24, 82, 177), (57, 125, 209),
          (134, 181, 229), (211, 236, 248), (241, 233, 191), (248, 201, 95),
          (255, 170, 0), (204, 128, 0), (153, 87, 0), (106, 52, 3)]),
      (''cool'',
         [(0, 0, 0), (0, 7, 100), (32, 107, 203), (237, 255, 255),
          (255, 170, 0), (0, 2, 0)]),
      (''warm'',
         [(0, 0, 0), (102, 2, 4), (255, 0, 0), (255, 200, 0), (255, 255, 255)]),
      (''grayscale'',
         [(0, 0, 0), (32, 32, 32), (64, 64, 64), (128, 128, 128),
          (192, 192, 192), (255, 255, 255)]),
      (''psychedelic'',
         [(0, 0, 0), (255, 0, 0), (255, 255, 0), (0, 255, 0),
          (0, 255, 255), (0, 0, 255), (255, 0, 255)]),
      (''ocean'',
         [(0, 0, 32), (0, 128, 255), (0, 255, 255), (255, 255, 255)]),
      (''forest'',
         [(0, 32, 0), (0, 64, 0), (0, 128, 0), (128, 255, 0), (255, 255, 0)])]"

text \<open>
  \<open>colorPalette\<close> (lines 100-115). The palette is looked up under the name held in
  \<open>currentPalette\<close>. \<open>palette[i]\<close> outside \<open>0 .. length - 1\<close> is \<open>undefined\<close>, and
  \<open>color1[0]\<close> then throws; so does \<open>palette.length\<close> for a name that is not a key.
  The second index \<open>Math.min(i + 1, palette.length - 1)\<close> is in range whenever the
  first is. \<open>Math.round\<close> rounds halves upwards, as \<open>round\<close> does. The interpolation
  is exact here; in doubles a sum that is exactly a half in the reals can fall just
  below it and round down (a channel one less, for instance at \<open>t = 3/10\<close>). At
  \<open>f = 0\<close>, so at \<open>t = 0\<close> and \<open>t = 1\<close>, the sum is the entry itself in both.
\<close>

definition colorPalette :: "string \<Rightarrow> real \<Rightarrow> dom_error + rgb" where
  "colorPalette currentPalette t =
     (case colorPalettes currentPalette of
        None \<Rightarrow> Inl TypeError
      | Some palette \<Rightarrow>
          (let i = \<lfloor>t * (real (length palette) - 1)\<rfloor>;
               f = t * (real (length palette) - 1) - of_int i
           in if i < 0 \<or> int (length palette) \<le> i then Inl TypeError
              else
                (let color1 = palette ! nat i;
                     color2 = palette ! nat (min (i + 1) (int (length palette) - 1))
                 in Inr (round (of_int (fst color1) * (1 - f) + of_int (fst color2) * f),
                         round (of_int (fst (snd color1)) * (1 - f)
                                + of_int (fst (snd color2)) * f),
                         round (of_int (snd (snd color1)) * (1 - f)
                                + of_int (snd (snd color2)) * f)))))"

subsection \<open>The escape loop of \<open>drawMandelbrot\<close>\<close>

text \<open>
  Lines 130-139: the \<open>while\<close> loop, with the loop variables \<open>cX\<close>, \<open>cY\<close> and
  \<open>iteration\<close> as arguments. The \<open>break\<close> leaves the loop before the increment.
\<close>

function escape_loop :: "real \<Rightarrow> real \<Rightarrow> int \<Rightarrow> real \<Rightarrow> real \<Rightarrow> int \<Rightarrow> int" where
  "escape_loop zx zy maxIter cX cY iteration =
     (if iteration < maxIter then
        (if (cX * cX - cY * cY + zx) * (cX * cX - cY * cY + zx)
            + (2 * cX * cY + zy) * (2 * cX * cY + zy) > 4
         then iteration
         else escape_loop zx zy maxIter
                (cX * cX - cY * cY + zx) (2 * cX * cY + zy) (iteration + 1))
      else iteration)"
  by pat_completeness auto
termination
  by (relation "measure (\<lambda>(zx, zy, maxIter, cX, cY, iteration). nat (maxIter - iteration))")
     auto

declare escape_loop.simps [simp del]

text \<open>Lines 127-130: the orbit starts at the sampled point itself, the counter at 0.\<close>

definition evaluate :: "real \<Rightarrow> real \<Rightarrow> int \<Rightarrow> int" where
  "evaluate zx zy maxIter = escape_loop zx zy maxIter zx zy 0"

subsection \<open>State of the component\<close>

text \<open>
  An entry of \<open>zoomHistory\<close> is the object \<open>{ centerX, centerY, zoom }\<close>; the state of the
  component has these three cells and the others of lines 89-98. A selection point
  \<open>{ x, y }\<close> is a pair.
\<close>

record snapshot =
  centerX :: real
  centerY :: real
  zoom :: number

record explorer = snapshot +
  maxIterations :: int
  zoomHistory :: "snapshot list"
  isMiniMapVisible :: bool
  currentPalette :: string
  isSelectingArea :: bool
  selectionStart :: "(real \<times> real) option"
  selectionEnd :: "(real \<times> real) option"

definition initial :: explorer where
  "initial = \<lparr> centerX = 0, centerY = 0, zoom = Num 200,
               maxIterations = 100, zoomHistory = [],
               isMiniMapVisible = False, currentPalette = ''initial'',
               isSelectingArea = False, selectionStart = None, selectionEnd = None \<rparr>"

text \<open>
  What a handler reads from the DOM: the canvas element (its pixel size, an unsigned
  integer, and the left and top of its bounding rectangle) and the mouse event. A
  \<open>canvasRef.current\<close> that is null is \<open>None\<close>.
\<close>

record canvas =
  canvas_width :: nat
  canvas_height :: nat
  rect_left :: real
  rect_top :: real

record mouse_event =
  clientX :: real
  clientY :: real

subsection \<open>Rendering one pixel\<close>

text \<open>
  Lines 120-126 of \<open>drawMandelbrot\<close>: the plane point \<open>(zx, zy)\<close> of the pixel
  \<open>(x, y)\<close>. With \<open>isMiniMap\<close> the scale is 50 and the horizontal centre is \<open>-0.5\<close>;
  the vertical centre is \<open>centerY\<close> in both cases.
\<close>

definition plane_point :: "explorer \<Rightarrow> nat \<Rightarrow> nat \<Rightarrow> bool \<Rightarrow> nat \<Rightarrow> nat \<Rightarrow> real \<times> real" where
  "plane_point s width height isMiniMap x y =
     (let aspect = real width / real height;
          scale = (if isMiniMap then Num 50 else zoom s);
          zx = (divided_by (real x - real width / 2) scale) * aspect
               + (if isMiniMap then - 0.5 else centerX s);
          zy = divided_by (real y - real height / 2) scale + centerY s
      in (zx, zy))"

text \<open>
  The rest of the body of the two \<open>for\<close> loops (lines 127-141): the colour written at
  \<open>pixelIndex = (y * width + x) * 4\<close>.
\<close>

definition mandelbrot_pixel ::
  "explorer \<Rightarrow> nat \<Rightarrow> nat \<Rightarrow> bool \<Rightarrow> nat \<Rightarrow> nat \<Rightarrow> dom_error + rgb" where
  "mandelbrot_pixel s width height isMiniMap x y =
     (case plane_point s width height isMiniMap x y of
        (zx, zy) \<Rightarrow>
          (let maxIter = (if isMiniMap then 50 else maxIterations s);
               iteration = evaluate zx zy maxIter
           in if iteration = maxIter then Inr (0, 0, 0)
              else colorPalette (currentPalette s) (of_int iteration / of_int maxIter)))"

text \<open>Lines 152-155: centre and radius of the circle stroked on the mini-map.\<close>

definition miniMapMarker :: "explorer \<Rightarrow> nat \<Rightarrow> nat \<Rightarrow> real \<times> real \<times> real" where
  "miniMapMarker s width height =
     ((centerX s + 0.5) * 50 + real width / 2,
      centerY s * 50 + real height / 2,
      max 1 (min ((divided_by (real width) (zoom s)) * 50) (real width / 2)))"

subsection \<open>Navigation handlers\<close>

definition handleZoom :: "canvas option \<Rightarrow> mouse_event \<Rightarrow> explorer \<Rightarrow> explorer" where
  "handleZoom canvasRef e s =
     (if isSelectingArea s then s
      else case canvasRef of
        None \<Rightarrow> s
      | Some cv \<Rightarrow>
          (let x = clientX e - rect_left cv;
               y = clientY e - rect_top cv;
               aspect = real (canvas_width cv) / real (canvas_height cv);
               newCenterX = centerX s
                  + (divided_by (x - real (canvas_width cv) / 2) (zoom s)) * aspect;
               newCenterY = centerY s
                  + divided_by (y - real (canvas_height cv) / 2) (zoom s)
           in s\<lparr> zoomHistory := zoomHistory s @
                    [\<lparr> centerX = centerX s, centerY = centerY s, zoom = zoom s \<rparr>],
                  centerX := newCenterX,
                  centerY := newCenterY,
                  zoom := number_times (zoom s) 2,
                  maxIterations := iteration_budget (number_times (zoom s) 2) \<rparr>))"

definition handleUndoZoom :: "explorer \<Rightarrow> explorer" where
  "handleUndoZoom s =
     (if length (zoomHistory s) > 0 then
        (let previousState = zoomHistory s ! (length (zoomHistory s) - 1)
         in s\<lparr> centerX := centerX previousState,
                centerY := centerY previousState,
                zoom := zoom previousState,
                maxIterations := iteration_budget (zoom previousState),
                zoomHistory := butlast (zoomHistory s) \<rparr>)
      else s)"

definition handleResetView :: "explorer \<Rightarrow> explorer" where
  "handleResetView s =
     s\<lparr> centerX := 0, centerY := 0, zoom := Num 200, maxIterations := 100,
        zoomHistory := [] \<rparr>"

definition toggleMiniMap :: "explorer \<Rightarrow> explorer" where
  "toggleMiniMap s = s\<lparr> isMiniMapVisible := \<not> isMiniMapVisible s \<rparr>"

definition handlePaletteChange :: "string \<Rightarrow> explorer \<Rightarrow> explorer" where
  "handlePaletteChange v s = s\<lparr> currentPalette := v \<rparr>"

definition toggleSelectArea :: "explorer \<Rightarrow> explorer" where
  "toggleSelectArea s = s\<lparr> isSelectingArea := \<not> isSelectingArea s \<rparr>"

subsection \<open>Selection handlers\<close>

definition handleMouseDown :: "canvas option \<Rightarrow> mouse_event \<Rightarrow> explorer \<Rightarrow> explorer" where
  "handleMouseDown canvasRef e s =
     (if \<not> isSelectingArea s then s
      else case canvasRef of
        None \<Rightarrow> s
      | Some cv \<Rightarrow>
          s\<lparr> selectionStart := Some (clientX e - rect_left cv, clientY e - rect_top cv) \<rparr>)"

definition handleMouseMove :: "canvas option \<Rightarrow> mouse_event \<Rightarrow> explorer \<Rightarrow> explorer" where
  "handleMouseMove canvasRef e s =
     (if \<not> isSelectingArea s \<or> selectionStart s = None then s
      else case canvasRef of
        None \<Rightarrow> s
      | Some cv \<Rightarrow>
          s\<lparr> selectionEnd := Some (clientX e - rect_left cv, clientY e - rect_top cv) \<rparr>)"

text \<open>
  \<open>getImageData(sx, sy, sw, sh)\<close> of the canvas API takes its arguments as \<open>long\<close>:
  a number is cut to its integer part (for the magnitudes below \<open>2^31\<close> that canvas
  coordinates have). It throws \<open>IndexSizeError\<close> when the width or the height is then
  zero and otherwise returns the pixels of that rectangle, of which the model keeps
  the rectangle.
\<close>

definition to_long :: "real \<Rightarrow> int" where
  "to_long v = (if 0 \<le> v then \<lfloor>v\<rfloor> else \<lceil>v\<rceil>)"

definition getImageData :: "real \<Rightarrow> real \<Rightarrow> real \<Rightarrow> real \<Rightarrow> dom_error + (int \<times> int \<times> int \<times> int)" where
  "getImageData sx sy sw sh =
     (if to_long sw = 0 \<or> to_long sh = 0 then Inl IndexSizeError
      else Inr (to_long sx, to_long sy, to_long sw, to_long sh))"

text \<open>
  What \<open>handleMouseUp\<close> hands to the download link: the copied rectangle and the three
  numbers stamped on the image and written into the file name (their formatting by
  \<open>toFixed\<close> and \<open>toExponential\<close> is not modelled).
\<close>

record artifact =
  imageData :: "int \<times> int \<times> int \<times> int"
  selectionCenterX :: real
  selectionCenterY :: real
  selectionZoom :: number

text \<open>
  \<open>handleMouseUp\<close> (lines 306-353). An early \<open>return\<close> leaves the state as it is and
  produces nothing; an exception leaves the handler before any state is set; otherwise
  the artifact is downloaded and the selection state is reset. The handler has no test
  of \<open>width\<close> or \<open>height\<close> of its own: the three numbers are computed first, then
  \<open>getImageData\<close> is called. A canvas that is present gives its 2d context, so the
  returns on a null context are those on a null canvas.
\<close>

definition handleMouseUp :: "canvas option \<Rightarrow> explorer \<Rightarrow> dom_error + (explorer \<times> artifact option)" where
  "handleMouseUp canvasRef s =
     (if \<not> isSelectingArea s then Inr (s, None)
      else case (selectionStart s, selectionEnd s, canvasRef) of
        (Some (startX, startY), Some (endX, endY), Some cv) \<Rightarrow>
          (let aspect = real (canvas_width cv) / real (canvas_height cv);
               left = min startX endX;
               top = min startY endY;
               width = \<bar>endX - startX\<bar>;
               height = \<bar>endY - startY\<bar>;
               selCenterX = centerX s
                  + (divided_by (left + width / 2 - real (canvas_width cv) / 2) (zoom s))
                    * aspect;
               selCenterY = centerY s
                  + divided_by (top + height / 2 - real (canvas_height cv) / 2) (zoom s);
               selZoom = number_times (zoom s)
                  (min (real (canvas_width cv) / width) (real (canvas_height cv) / height))
           in case getImageData left top width height of
                Inl err \<Rightarrow> Inl err
              | Inr img \<Rightarrow>
                  Inr (s\<lparr> isSelectingArea := False,
                          selectionStart := None,
                          selectionEnd := None \<rparr>,
                       Some \<lparr> imageData = img,
                              selectionCenterX = selCenterX,
                              selectionCenterY = selCenterY,
                              selectionZoom = selZoom \<rparr>))
      | _ \<Rightarrow> Inr (s, None))"

subsection \<open>Sessions\<close>

text \<open>
  The handlers wired to the canvas and the buttons (lines 361-395), as the actions of a
  user. A \<open>handleMouseUp\<close> that throws sets no state.
\<close>

datatype action =
    Click "canvas option" mouse_event
  | UndoZoom
  | ResetView
  | ToggleMiniMap
  | PaletteChange string
  | ToggleSelectArea
  | MouseDown "canvas option" mouse_event
  | MouseMove "canvas option" mouse_event
  | MouseUp "canvas option"

fun step :: "action \<Rightarrow> explorer \<Rightarrow> explorer" where
  "step (Click canvasRef e) s = handleZoom canvasRef e s"
| "step UndoZoom s = handleUndoZoom s"
| "step ResetView s = handleResetView s"
| "step ToggleMiniMap s = toggleMiniMap s"
| "step (PaletteChange v) s = handlePaletteChange v s"
| "step ToggleSelectArea s = toggleSelectArea s"
| "step (MouseDown canvasRef e) s = handleMouseDown canvasRef e s"
| "step (MouseMove canvasRef e) s = handleMouseMove canvasRef e s"
| "step (MouseUp canvasRef) s =
     (case handleMouseUp canvasRef s of Inl err \<Rightarrow> s | Inr (s', a) \<Rightarrow> s')"

fun run :: "action list \<Rightarrow> explorer \<Rightarrow> explorer" where
  "run [] s = s"
| "run (a # as) s = run as (step a s)"

text \<open>
  The invariant of the navigation state: every scale, current or stacked, is the
  initial 200 doubled at most 1016 times (\<open>200 * 2 ^ 1016\<close> is the last of these below
  \<open>2 ^ 1024\<close>) or is \<open>Infinity\<close>, and the budget is between 100 and 1000.
\<close>

definition doubled :: "number \<Rightarrow> bool" where
  "doubled z \<longleftrightarrow> z = Infinity \<or> (\<exists>k::nat. k \<le> 1016 \<and> z = Num (200 * 2 ^ k))"

definition nav_inv :: "explorer \<Rightarrow> bool" where
  "nav_inv s \<longleftrightarrow> doubled (zoom s) \<and> (\<forall>h \<in> set (zoomHistory s). doubled (zoom h))
                 \<and> 100 \<le> maxIterations s \<and> maxIterations s \<le> 1000"

subsection \<open>Concrete inputs\<close>

definition canvas_800_600 :: canvas where
  "canvas_800_600 = \<lparr> canvas_width = 800, canvas_height = 600, rect_left = 0, rect_top = 0 \<rparr>"

definition center_click :: action where
  "center_click = Click (Some canvas_800_600) \<lparr> clientX = 400, clientY = 300 \<rparr>"

definition example_session :: "action list" where
  "example_session =
     [Click (Some canvas_800_600) \<lparr> clientX = 400, clientY = 560 \<rparr>,
      Click (Some canvas_800_600) \<lparr> clientX = 100, clientY = 200 \<rparr>,
      UndoZoom]"

text \<open>Selection mode on, then a drag over the whole canvas, and a drag straight down.\<close>

definition full_selection :: explorer where
  "full_selection =
     handleMouseMove (Some canvas_800_600) \<lparr> clientX = 800, clientY = 600 \<rparr>
       (handleMouseDown (Some canvas_800_600) \<lparr> clientX = 0, clientY = 0 \<rparr>
          (toggleSelectArea initial))"

definition line_selection :: explorer where
  "line_selection =
     handleMouseMove (Some canvas_800_600) \<lparr> clientX = 10, clientY = 50 \<rparr>
       (handleMouseDown (Some canvas_800_600) \<lparr> clientX = 10, clientY = 10 \<rparr>
          (toggleSelectArea initial))"

section \<open>Properties\<close>

subsection \<open>The escape loop\<close>

lemma escape_loop_origin:
  "iteration \<le> maxIter \<Longrightarrow> escape_loop 0 0 maxIter 0 0 iteration = maxIter"
proof (induction "nat (maxIter - iteration)" arbitrary: iteration)
  case 0
  then show ?case by (simp add: escape_loop.simps)
next
  case (Suc n)
  then have "iteration < maxIter" by linarith
  moreover have "escape_loop 0 0 maxIter 0 0 (iteration + 1) = maxIter"
    using Suc by (intro Suc.hyps(1)) linarith+
  ultimately show ?case by (subst escape_loop.simps) simp
qed

text \<open>
  After one step from \<open>z = c\<close> the orbit is at \<open>c\<^sup>2 + c = c (c + 1)\<close>, whose squared
  modulus is the product of those of \<open>c\<close> and \<open>c + 1\<close>.
\<close>

lemma first_step_escapes:
  fixes x y :: real
  assumes "2 < x"
  shows "(x * x - y * y + x) * (x * x - y * y + x) + (2 * x * y + y) * (2 * x * y + y) > 4"
proof -
  have eq: "(x * x - y * y + x) * (x * x - y * y + x) + (2 * x * y + y) * (2 * x * y + y)
        = (x * x + y * y) * ((x + 1) * (x + 1) + y * y)"
    by algebra
  have a: "4 < x * x + y * y"
  proof -
    have "2 * 2 < x * x" using assms by (intro mult_strict_mono) simp_all
    moreover have "0 \<le> y * y" by simp
    ultimately show ?thesis by linarith
  qed
  have b: "1 \<le> (x + 1) * (x + 1) + y * y"
  proof -
    have "1 * 1 \<le> (x + 1) * (x + 1)" using assms by (intro mult_mono) simp_all
    moreover have "0 \<le> y * y" by simp
    ultimately show ?thesis by linarith
  qed
  have "4 * 1 < (x * x + y * y) * ((x + 1) * (x + 1) + y * y)"
    using a b by (intro mult_less_le_imp_less) simp_all
  then show ?thesis by (simp only: eq)
qed

text \<open>
  C6. For every iteration budget \<open>N \<ge> 1\<close>, \<open>evaluate 0 0 N\<close> returns \<open>N\<close>: the orbit of
  the plane origin stays at the origin, the escape test never holds, and the loop
  runs until the counter reaches the budget.
\<close>

theorem evaluate_origin: "1 \<le> N \<Longrightarrow> evaluate 0 0 N = N"
  using escape_loop_origin [of 0 N] by (simp add: evaluate_def)

theorem evaluate_origin_witness: "(1::int) \<le> 50 \<and> evaluate 0 0 50 = 50"
  using evaluate_origin [of 50] by simp

text \<open>
  C5. For every \<open>x > 2\<close>, every \<open>y\<close> and every budget \<open>N \<ge> 1\<close>, \<open>evaluate x y N\<close> returns
  0: the escape test holds after the first step, before the counter is incremented.
\<close>

theorem evaluate_outside: "2 < x \<Longrightarrow> 1 \<le> N \<Longrightarrow> evaluate x y N = 0"
  unfolding evaluate_def
  by (subst escape_loop.simps) (simp add: first_step_escapes)

theorem evaluate_outside_witness:
  "(2::real) < 3 \<and> (1::int) \<le> 100 \<and> evaluate 3 1 100 = 0"
  using evaluate_outside [of 3 100 1] by simp

subsection \<open>The iteration budget\<close>

text \<open>
  \<open>\<lfloor>100 * log 2 z\<rfloor> = n\<close> is decided by comparing \<open>z ^ 100\<close> with \<open>2 ^ n\<close> and
  \<open>2 ^ (n + 1)\<close>.
\<close>

lemma floor_log2_100:
  fixes z :: real
  assumes "0 < z" "2 ^ n \<le> z ^ 100" "z ^ 100 < 2 ^ Suc n"
  shows "\<lfloor>100 * log 2 z\<rfloor> = int n"
proof -
  have e: "100 * log 2 z = log 2 (z ^ 100)"
    using assms(1) by (simp add: log_nat_power)
  have p: "0 < z ^ 100" using assms(1) by simp
  have "real n = log 2 (2 ^ n)" by simp
  also have "\<dots> \<le> log 2 (z ^ 100)"
    using assms(2) p by (subst log_le_cancel_iff) simp_all
  finally have lo: "real n \<le> 100 * log 2 z" by (simp add: e)
  have "log 2 (z ^ 100) < log 2 (2 ^ Suc n)"
    using assms(3) p by (subst log_less_cancel_iff) simp_all
  also have "\<dots> = real (Suc n)" by (simp only: log_pow_cancel)
  also have "\<dots> = real n + 1" by simp
  finally have hi: "100 * log 2 z < real n + 1" by (simp add: e)
  show ?thesis using lo hi by (simp add: floor_eq_iff)
qed

lemma floor_log2_200: "\<lfloor>100 * log 2 (200::real)\<rfloor> = 764"
  using floor_log2_100 [of 200 764] by simp

lemma floor_log2_400: "\<lfloor>100 * log 2 (400::real)\<rfloor> = 864"
  using floor_log2_100 [of 400 864] by simp

lemma budget_bounds:
  assumes "2 \<le> z"
  shows "100 \<le> min 1000 \<lfloor>100 * log 2 z\<rfloor>" and "min 1000 \<lfloor>100 * log 2 z\<rfloor> \<le> 1000"
proof -
  have "log 2 2 \<le> log 2 z" using assms by (subst log_le_cancel_iff) simp_all
  then have "1 \<le> log 2 z" by simp
  then have "(100::real) \<le> 100 * log 2 z" by simp
  then have "100 \<le> \<lfloor>100 * log 2 z\<rfloor>" by (simp add: le_floor_iff)
  then show "100 \<le> min 1000 \<lfloor>100 * log 2 z\<rfloor>" by simp
  show "min 1000 \<lfloor>100 * log 2 z\<rfloor> \<le> 1000" by simp
qed

subsection \<open>Zoom in, undo\<close>

lemma handleZoom_fields:
  assumes "\<not> isSelectingArea s"
  shows "zoom (handleZoom (Some cv) e s) = number_times (zoom s) 2"
    and "maxIterations (handleZoom (Some cv) e s) = iteration_budget (number_times (zoom s) 2)"
    and "zoomHistory (handleZoom (Some cv) e s)
         = zoomHistory s @ [\<lparr> centerX = centerX s, centerY = centerY s, zoom = zoom s \<rparr>]"
    and "centerX (handleZoom (Some cv) e s)
         = centerX s
           + divided_by (clientX e - rect_left cv - real (canvas_width cv) / 2) (zoom s)
             * (real (canvas_width cv) / real (canvas_height cv))"
    and "centerY (handleZoom (Some cv) e s)
         = centerY s + divided_by (clientY e - rect_top cv - real (canvas_height cv) / 2) (zoom s)"
    and "isSelectingArea (handleZoom (Some cv) e s) = isSelectingArea s"
  using assms by (simp_all add: handleZoom_def Let_def)

lemma initial_fields:
  "\<not> isSelectingArea initial" "zoom initial = Num 200" "centerX initial = 0"
  "centerY initial = 0" "maxIterations initial = 100" "currentPalette initial = ''initial''"
  by (simp_all add: initial_def)

text \<open>
  C3, as the code has it. From the default state on an 800 by 600 canvas, a click at
  (400, 300) leaves \<open>centerX\<close> and \<open>centerY\<close> at 0, sets \<open>zoom\<close> to 400 and sets
  \<open>maxIterations\<close> to \<open>\<lfloor>100 * log 2 400\<rfloor>\<close>, which is 864.
\<close>

theorem zoom_center_scenario:
  "centerX (handleZoom (Some canvas_800_600) \<lparr> clientX = 400, clientY = 300 \<rparr> initial) = 0
   \<and> centerY (handleZoom (Some canvas_800_600) \<lparr> clientX = 400, clientY = 300 \<rparr> initial) = 0
   \<and> zoom (handleZoom (Some canvas_800_600) \<lparr> clientX = 400, clientY = 300 \<rparr> initial)
     = Num 400
   \<and> maxIterations (handleZoom (Some canvas_800_600) \<lparr> clientX = 400, clientY = 300 \<rparr> initial)
     = 864"
  by (simp add: handleZoom_fields [OF initial_fields(1)] initial_fields canvas_800_600_def
        overflow_bound_def floor_log2_400)

text \<open>
  C3, as the claim has it: the budget after that click is not 863.
\<close>

theorem zoom_center_scenario_counterexample:
  "maxIterations (handleZoom (Some canvas_800_600) \<lparr> clientX = 400, clientY = 300 \<rparr> initial)
   \<noteq> 863"
  by (simp add: handleZoom_fields(2) [OF initial_fields(1)] initial_fields overflow_bound_def
        floor_log2_400)

text \<open>
  C1, as the code has it. Outside selection mode and for a positive scale, zoom-in
  followed by undo gives back \<open>centerX\<close>, \<open>centerY\<close>, \<open>zoom\<close>, the history and every other
  cell, and sets \<open>maxIterations\<close> to \<open>min 1000 \<lfloor>100 * log 2 zoom\<rfloor>\<close> computed from the
  scale that is restored (1000 for the scale \<open>Infinity\<close>): an entry of the history holds
  no budget.
\<close>

theorem zoom_undo:
  assumes "\<not> isSelectingArea s" and "positive_number (zoom s)"
  shows "handleUndoZoom (handleZoom (Some cv) e s)
         = s\<lparr> maxIterations :=
               (case zoom s of Num z \<Rightarrow> min 1000 \<lfloor>100 * log 2 z\<rfloor> | Infinity \<Rightarrow> 1000) \<rparr>"
proof -
  have "iteration_budget (zoom s)
        = (case zoom s of Num z \<Rightarrow> min 1000 \<lfloor>100 * log 2 z\<rfloor> | Infinity \<Rightarrow> 1000)"
    by (cases "zoom s") simp_all
  then show ?thesis
    using assms by (simp add: handleZoom_def handleUndoZoom_def Let_def)
qed

theorem zoom_undo_witness:
  "\<not> isSelectingArea initial \<and> positive_number (zoom initial)
   \<and> handleUndoZoom (handleZoom (Some canvas_800_600) \<lparr> clientX = 10, clientY = 20 \<rparr> initial)
     = initial\<lparr> maxIterations := 764 \<rparr>"
proof -
  have h: "\<not> isSelectingArea initial" "positive_number (zoom initial)"
    by (simp_all add: initial_fields)
  from zoom_undo [OF h] h show ?thesis
    by (simp add: initial_fields floor_log2_200)
qed

text \<open>
  C1, as the claim has it: from the default state, whose budget is 100, zoom-in at
  (400, 300) followed by undo leaves the budget at 764.
\<close>

theorem zoom_undo_counterexample:
  "maxIterations initial = 100
   \<and> maxIterations (handleUndoZoom
        (handleZoom (Some canvas_800_600) \<lparr> clientX = 400, clientY = 300 \<rparr> initial)) = 764"
  by (simp add: handleZoom_def handleUndoZoom_def Let_def initial_fields floor_log2_200)

subsection \<open>The navigation invariant\<close>

text \<open>\<open>200 * 2 ^ k\<close> is a finite double exactly for \<open>k \<le> 1016\<close>.\<close>

lemma scale_below_bound: "k \<le> 1016 \<Longrightarrow> 200 * 2 ^ k < overflow_bound"
proof -
  assume k: "k \<le> 1016"
  have "(200::real) * 2 ^ k < 2 ^ 8 * 2 ^ k" by simp
  also have "\<dots> = 2 ^ (8 + k)" by (simp only: power_add)
  also have "\<dots> \<le> 2 ^ 1024" using k by (intro power_increasing) simp_all
  finally show ?thesis by (simp only: overflow_bound_def)
qed

lemma scale_above_bound: "1017 \<le> k \<Longrightarrow> overflow_bound \<le> 200 * 2 ^ k"
proof -
  assume k: "1017 \<le> k"
  have "(2::real) ^ 1024 = 2 ^ (7 + 1017)" by simp
  also have "\<dots> = 2 ^ 7 * 2 ^ 1017" by (simp only: power_add)
  also have "\<dots> \<le> 2 ^ 7 * 2 ^ k"
    using k by (intro mult_left_mono power_increasing) simp_all
  also have "\<dots> \<le> 200 * 2 ^ k" by simp
  finally show ?thesis by (simp only: overflow_bound_def)
qed

lemma double_scale:
  "number_times (Num (200 * 2 ^ k)) 2
   = (if k < 1016 then Num (200 * 2 ^ Suc k) else Infinity)"
proof (cases "k < 1016")
  case True
  then have "200 * 2 ^ Suc k < overflow_bound" by (intro scale_below_bound) simp
  with True show ?thesis by (simp add: mult.commute)
next
  case False
  then have "overflow_bound \<le> 200 * 2 ^ Suc k" by (intro scale_above_bound) simp
  with False show ?thesis by (simp add: mult.commute)
qed

lemma doubled_twice: "doubled z \<Longrightarrow> doubled (number_times z 2)"
proof (cases z)
  case Infinity
  then show ?thesis by (simp add: doubled_def)
next
  case (Num r)
  assume "doubled z"
  with Num obtain k :: nat where k: "k \<le> 1016" "r = 200 * 2 ^ k"
    by (auto simp: doubled_def)
  show ?thesis
  proof (cases "k < 1016")
    case True
    then have "Suc k \<le> 1016" by simp
    moreover have "number_times z 2 = Num (200 * 2 ^ Suc k)"
      using True by (simp only: Num k(2) double_scale if_True)
    ultimately show ?thesis unfolding doubled_def by blast
  next
    case False
    then have "number_times z 2 = Infinity"
      by (simp only: Num k(2) double_scale if_False)
    then show ?thesis by (simp add: doubled_def)
  qed
qed

lemma doubled_budget:
  assumes "doubled z"
  shows "100 \<le> iteration_budget z" and "iteration_budget z \<le> 1000"
proof -
  have "100 \<le> iteration_budget z \<and> iteration_budget z \<le> 1000"
  proof (cases z)
    case Infinity
    then show ?thesis by simp
  next
    case (Num r)
    with assms obtain k :: nat where k: "r = 200 * 2 ^ k"
      by (auto simp: doubled_def)
    have "(1::real) \<le> 2 ^ k" by simp
    then have "2 \<le> r" unfolding k by linarith
    from budget_bounds [OF this] Num show ?thesis by simp
  qed
  then show "100 \<le> iteration_budget z" and "iteration_budget z \<le> 1000" by simp_all
qed

lemma nav_inv_initial: "nav_inv initial"
proof -
  have "(0::nat) \<le> 1016 \<and> Num 200 = Num (200 * 2 ^ (0::nat))" by simp
  then have "doubled (Num 200)" unfolding doubled_def by blast
  then show ?thesis by (simp add: nav_inv_def initial_def)
qed

lemma nav_inv_handleZoom: "nav_inv s \<Longrightarrow> nav_inv (handleZoom canvasRef e s)"
proof -
  assume i: "nav_inv s"
  then have d: "doubled (number_times (zoom s) 2)" by (simp add: nav_inv_def doubled_twice)
  note b = doubled_budget [OF d]
  show ?thesis
    using i d b by (auto simp: handleZoom_def nav_inv_def Let_def split: option.splits)
qed

lemma nav_inv_handleUndoZoom: "nav_inv s \<Longrightarrow> nav_inv (handleUndoZoom s)"
proof (cases "zoomHistory s = []")
  case True
  assume "nav_inv s"
  with True show ?thesis by (simp add: handleUndoZoom_def)
next
  case False
  assume i: "nav_inv s"
  define previousState where "previousState = zoomHistory s ! (length (zoomHistory s) - 1)"
  have "previousState \<in> set (zoomHistory s)"
    using False by (simp add: previousState_def)
  then have d: "doubled (zoom previousState)" using i by (simp add: nav_inv_def)
  note b = doubled_budget [OF d]
  have r: "\<forall>h \<in> set (butlast (zoomHistory s)). doubled (zoom h)"
    using i by (auto simp: nav_inv_def dest: in_set_butlastD)
  have "handleUndoZoom s
        = s\<lparr> centerX := centerX previousState,
               centerY := centerY previousState,
               zoom := zoom previousState,
               maxIterations := iteration_budget (zoom previousState),
               zoomHistory := butlast (zoomHistory s) \<rparr>"
    using False by (simp add: handleUndoZoom_def previousState_def Let_def)
  then show ?thesis
    using d b r by (simp add: nav_inv_def)
qed

lemma nav_inv_handleResetView: "nav_inv (handleResetView s)"
  using nav_inv_initial by (simp add: handleResetView_def nav_inv_def initial_def)

lemma nav_inv_handleMouseUp:
  "nav_inv s \<Longrightarrow> handleMouseUp canvasRef s = Inr (s', a) \<Longrightarrow> nav_inv s'"
  by (auto simp: handleMouseUp_def nav_inv_def Let_def
           split: if_splits option.splits prod.splits sum.splits)

lemma nav_inv_step: "nav_inv s \<Longrightarrow> nav_inv (step a s)"
proof (cases a)
  case (Click c e)
  assume "nav_inv s" with Click show ?thesis by (simp add: nav_inv_handleZoom)
next
  case UndoZoom
  assume "nav_inv s" with UndoZoom show ?thesis by (simp add: nav_inv_handleUndoZoom)
next
  case ResetView
  then show ?thesis by (simp add: nav_inv_handleResetView)
next
  case ToggleMiniMap
  assume "nav_inv s" with ToggleMiniMap show ?thesis
    by (simp add: toggleMiniMap_def nav_inv_def)
next
  case (PaletteChange v)
  assume "nav_inv s" with PaletteChange show ?thesis
    by (simp add: handlePaletteChange_def nav_inv_def)
next
  case ToggleSelectArea
  assume "nav_inv s" with ToggleSelectArea show ?thesis
    by (simp add: toggleSelectArea_def nav_inv_def)
next
  case (MouseDown c e)
  assume "nav_inv s" with MouseDown show ?thesis
    by (auto simp: handleMouseDown_def nav_inv_def split: option.splits)
next
  case (MouseMove c e)
  assume "nav_inv s" with MouseMove show ?thesis
    by (auto simp: handleMouseMove_def nav_inv_def split: option.splits)
next
  case (MouseUp c)
  assume "nav_inv s" with MouseUp show ?thesis
    by (auto split: sum.splits dest: nav_inv_handleMouseUp)
qed

lemma nav_inv_run: "nav_inv s \<Longrightarrow> nav_inv (run acts s)"
  by (induction acts arbitrary: s) (simp_all add: nav_inv_step)

lemma run_append: "run (as @ bs) s = run bs (run as s)"
  by (induction as arbitrary: s) simp_all

lemma run_example_session:
  "zoom (run example_session initial) = Num 400"
  "maxIterations (run example_session initial) = 864"
  "zoomHistory (run example_session initial) = [\<lparr> centerX = 0, centerY = 0, zoom = Num 200 \<rparr>]"
  by (simp_all add: example_session_def handleZoom_def handleUndoZoom_def Let_def initial_def
        canvas_800_600_def overflow_bound_def floor_log2_400)

text \<open>
  Successive zoom-in clicks from a scale \<open>200 * 2 ^ k\<close>: each doubles the scale as long
  as the result is a finite double.
\<close>

lemma step_center_click:
  assumes "\<not> isSelectingArea s"
  shows "zoom (step center_click s) = number_times (zoom s) 2"
    and "\<not> isSelectingArea (step center_click s)"
  using assms by (simp_all add: center_click_def handleZoom_fields)

lemma run_center_clicks:
  assumes "zoom s = Num (200 * 2 ^ k)" and "\<not> isSelectingArea s" and "k + n \<le> 1016"
  shows "zoom (run (replicate n center_click) s) = Num (200 * 2 ^ (k + n))
         \<and> \<not> isSelectingArea (run (replicate n center_click) s)"
  using assms
proof (induction n arbitrary: s k)
  case 0
  then show ?case by simp
next
  case (Suc n)
  let ?s = "step center_click s"
  have k: "k < 1016" using Suc.prems(3) by simp
  have "zoom ?s = number_times (Num (200 * 2 ^ k)) 2"
    by (simp only: step_center_click(1) [OF Suc.prems(2)] Suc.prems(1))
  also have "\<dots> = Num (200 * 2 ^ Suc k)"
    using k by (simp only: double_scale if_True)
  finally have z: "zoom ?s = Num (200 * 2 ^ Suc k)" .
  have n: "\<not> isSelectingArea ?s"
    by (rule step_center_click(2) [OF Suc.prems(2)])
  have "Suc k + n \<le> 1016" using Suc.prems(3) by simp
  from Suc.IH [OF z n this] show ?case by simp
qed

lemma zoom_after_1016:
  "zoom (run (replicate 1016 center_click) initial) = Num (200 * 2 ^ 1016)"
  "\<not> isSelectingArea (run (replicate 1016 center_click) initial)"
  using run_center_clicks [of initial 0 1016] by (simp_all add: initial_fields)

text \<open>
  C9, as the code has it. From the initial state, after any sequence of actions
  (zoom-in clicks, undo and reset, and the other handlers of the component as well),
  the current scale and the scale of every entry of the history are \<open>200 * 2 ^ k\<close> for
  a natural number \<open>k \<le> 1016\<close>, or \<open>Infinity\<close>, which is what doubling
  \<open>200 * 2 ^ 1016\<close> gives in a double; and \<open>maxIterations\<close> is at least 100 and at most
  1000.
\<close>

theorem navigation_invariant:
  "(zoom (run acts initial) = Infinity
      \<or> (\<exists>k::nat. k \<le> 1016 \<and> zoom (run acts initial) = Num (200 * 2 ^ k)))
   \<and> (\<forall>h \<in> set (zoomHistory (run acts initial)).
         zoom h = Infinity \<or> (\<exists>k::nat. k \<le> 1016 \<and> zoom h = Num (200 * 2 ^ k)))
   \<and> 100 \<le> maxIterations (run acts initial)
   \<and> maxIterations (run acts initial) \<le> 1000"
  using nav_inv_run [OF nav_inv_initial, of acts] by (simp add: nav_inv_def doubled_def)

theorem navigation_invariant_witness:
  "zoom (run example_session initial) = Num 400
   \<and> zoomHistory (run example_session initial) = [\<lparr> centerX = 0, centerY = 0, zoom = Num 200 \<rparr>]
   \<and> (\<exists>k::nat. k \<le> 1016 \<and> (400::real) = 200 * 2 ^ k)
   \<and> (\<exists>k::nat. k \<le> 1016 \<and> (200::real) = 200 * 2 ^ k)
   \<and> 100 \<le> maxIterations (run example_session initial)
   \<and> maxIterations (run example_session initial) \<le> 1000"
  using navigation_invariant [of example_session] by (simp add: run_example_session)

text \<open>
  C9, as the claim has it: after 1017 successive zoom-in clicks from the initial state
  the scale is \<open>Infinity\<close>, which is no \<open>200 * 2 ^ k\<close>.
\<close>

theorem navigation_overflow_counterexample:
  "zoom (run (replicate 1017 center_click) initial) = Infinity"
proof -
  have "replicate (1016 + 1) center_click
        = replicate 1016 center_click @ replicate 1 center_click"
    by (rule replicate_add)
  then have r: "replicate 1017 center_click = replicate 1016 center_click @ [center_click]"
    by simp
  have "zoom (step center_click (run (replicate 1016 center_click) initial))
        = number_times (Num (200 * 2 ^ 1016)) 2"
    by (simp only: step_center_click(1) [OF zoom_after_1016(2)] zoom_after_1016(1))
  also have "\<dots> = Infinity" by (simp only: double_scale) simp
  finally show ?thesis by (simp only: r run_append run.simps)
qed

subsection \<open>Colours\<close>

lemma colorPalettes_nonempty: "colorPalettes name = Some palette \<Longrightarrow> palette \<noteq> []"
  by (auto simp: colorPalettes_def split: if_splits)

lemma colorPalette_zero:
  assumes "colorPalettes name = Some palette" and "palette \<noteq> []"
  shows "colorPalette name 0 = Inr (palette ! 0)"
  using assms by (simp add: colorPalette_def Let_def)

lemma colorPalette_one:
  assumes "colorPalettes name = Some palette" and "palette \<noteq> []"
  shows "colorPalette name 1 = Inr (last palette)"
proof -
  have n: "0 < length palette" using assms(2) by simp
  then have i: "\<lfloor>real (length palette) - 1\<rfloor> = int (length palette) - 1"
    by (simp add: floor_eq_iff)
  have k: "nat (int (length palette) - 1) = length palette - 1" by simp
  show ?thesis
    using assms n by (simp add: colorPalette_def Let_def i k last_conv_nth)
qed

lemma colorPalettes_cool:
  "colorPalettes ''cool'' = Some [(0, 0, 0), (0, 7, 100), (32, 107, 203), (237, 255, 255),
          (255, 170, 0), (0, 2, 0)]"
  by (simp add: colorPalettes_def)

lemma colorPalette_initial_0: "colorPalette ''initial'' 0 = Inr (0, 7, 100)"
  by (simp add: colorPalette_def colorPalettes_def)

text \<open>
  C8. For every palette registered in \<open>colorPalettes\<close>, \<open>colorPalette\<close> at 0 is the first
  entry of the palette and at 1 the last one; at 1 no read is out of range (the result
  is a colour, not the \<open>TypeError\<close>).
\<close>

theorem colorPalette_ends:
  "colorPalettes name = Some palette \<Longrightarrow>
     colorPalette name 0 = Inr (palette ! 0) \<and> colorPalette name 1 = Inr (last palette)"
  using colorPalette_zero colorPalette_one colorPalettes_nonempty by blast

theorem colorPalette_ends_witness:
  "colorPalettes ''cool'' = Some [(0, 0, 0), (0, 7, 100), (32, 107, 203), (237, 255, 255),
          (255, 170, 0), (0, 2, 0)]
   \<and> colorPalette ''cool'' 0 = Inr (0, 0, 0) \<and> colorPalette ''cool'' 1 = Inr (0, 2, 0)"
  using colorPalette_ends [OF colorPalettes_cool] colorPalettes_cool by simp

subsection \<open>The overview\<close>

text \<open>
  What the overview does not read: two states with the same \<open>centerY\<close> and the same
  palette give the same overview pixel, whatever their \<open>centerX\<close>, \<open>zoom\<close> and
  \<open>maxIterations\<close>.
\<close>

lemma overview_pixel_depends:
  "centerY s = centerY s' \<Longrightarrow> currentPalette s = currentPalette s' \<Longrightarrow>
     mandelbrot_pixel s width height True x y = mandelbrot_pixel s' width height True x y"
  by (simp add: mandelbrot_pixel_def plane_point_def Let_def)

lemma overview_plane_point:
  "plane_point s width height True x y
   = ((real x - real width / 2) / 50 * (real width / real height) - 0.5,
      (real y - real height / 2) / 50 + centerY s)"
  by (simp add: plane_point_def Let_def)

text \<open>
  The marker of lines 153-154 is drawn where a viewport of scale 50 centred at
  \<open>(-0.5, 0)\<close> shows the live centre: it takes the vertical centre of the overview to
  be 0, not \<open>centerY\<close>.
\<close>

lemma marker_inverts_fixed_viewport:
  assumes "miniMapMarker s width height = (viewX, viewY, viewSize)"
  shows "(viewX - real width / 2) / 50 + (- 0.5) = centerX s"
    and "(viewY - real height / 2) / 50 + 0 = centerY s"
  using assms by (auto simp: miniMapMarker_def add_divide_distrib)

text \<open>
  C2, at a failing input. On the 150 by 150 mini-map the pixel (100, 75) is the plane
  point (0, 0) in the initial state and is painted black. After one zoom-in click at
  (400, 560) on an 800 by 600 canvas, \<open>centerY\<close> is 1.3, the same pixel is the plane
  point (0, 1.3), and it is painted with the first colour of the palette: the overview
  has moved with the live centre.
\<close>

theorem overview_depends_on_centerY:
  "plane_point initial 150 150 True 100 75 = (0, 0)
   \<and> mandelbrot_pixel initial 150 150 True 100 75 = Inr (0, 0, 0)
   \<and> plane_point (handleZoom (Some canvas_800_600) \<lparr> clientX = 400, clientY = 560 \<rparr> initial)
        150 150 True 100 75 = (0, 13 / 10)
   \<and> mandelbrot_pixel (handleZoom (Some canvas_800_600) \<lparr> clientX = 400, clientY = 560 \<rparr> initial)
        150 150 True 100 75 = Inr (0, 7, 100)"
proof -
  let ?s = "handleZoom (Some canvas_800_600) \<lparr> clientX = 400, clientY = 560 \<rparr> initial"
  have p0: "plane_point initial 150 150 True 100 75 = (0, 0)"
    by (simp add: overview_plane_point initial_fields)
  have a: "mandelbrot_pixel initial 150 150 True 100 75 = Inr (0, 0, 0)"
    using escape_loop_origin [of 0 50]
    by (simp add: mandelbrot_pixel_def p0 Let_def evaluate_def)
  have c: "centerY ?s = 13 / 10"
    by (simp add: handleZoom_fields [OF initial_fields(1)] canvas_800_600_def initial_fields)
  have p: "currentPalette ?s = ''initial''"
    by (simp add: handleZoom_def Let_def initial_def)
  have p1: "plane_point ?s 150 150 True 100 75 = (0, 13 / 10)"
    by (simp add: overview_plane_point c)
  have e: "evaluate 0 (13 / 10) 50 = 0"
    unfolding evaluate_def by (subst escape_loop.simps) simp
  have b: "mandelbrot_pixel ?s 150 150 True 100 75 = Inr (0, 7, 100)"
    by (simp add: mandelbrot_pixel_def p1 Let_def p e colorPalette_initial_0)
  from p0 a p1 b show ?thesis by simp
qed

subsection \<open>Capture\<close>

lemma full_selection_fields:
  "isSelectingArea full_selection"
  "selectionStart full_selection = Some (0, 0)"
  "selectionEnd full_selection = Some (800, 600)"
  "zoom full_selection = Num 200" "centerX full_selection = 0" "centerY full_selection = 0"
  by (simp_all add: full_selection_def handleMouseMove_def handleMouseDown_def
        toggleSelectArea_def initial_def canvas_800_600_def)

lemma line_selection_fields:
  "isSelectingArea line_selection"
  "selectionStart line_selection = Some (10, 10)"
  "selectionEnd line_selection = Some (10, 50)"
  by (simp_all add: line_selection_def handleMouseMove_def handleMouseDown_def
        toggleSelectArea_def initial_def canvas_800_600_def)

text \<open>
  C4. In selection mode with both corners set, a rectangle whose width or height is
  not positive makes \<open>handleMouseUp\<close> end in the \<open>IndexSizeError\<close> of \<open>getImageData\<close>:
  no sub-image, centre or scale leaves the handler, and no state is set.
\<close>

theorem capture_degenerate:
  assumes "isSelectingArea s"
    and "selectionStart s = Some (startX, startY)"
    and "selectionEnd s = Some (endX, endY)"
    and "\<bar>endX - startX\<bar> \<le> 0 \<or> \<bar>endY - startY\<bar> \<le> 0"
  shows "handleMouseUp (Some cv) s = Inl IndexSizeError"
proof -
  have "to_long \<bar>endX - startX\<bar> = 0 \<or> to_long \<bar>endY - startY\<bar> = 0"
    using assms(4) by (auto simp: to_long_def)
  then have "getImageData (min startX endX) (min startY endY)
               \<bar>endX - startX\<bar> \<bar>endY - startY\<bar> = Inl IndexSizeError"
    by (simp add: getImageData_def)
  then show ?thesis
    using assms(1-3) by (simp add: handleMouseUp_def Let_def)
qed

theorem capture_degenerate_witness:
  "isSelectingArea line_selection
   \<and> selectionStart line_selection = Some (10, 10)
   \<and> selectionEnd line_selection = Some (10, 50)
   \<and> (\<bar>10 - 10 :: real\<bar> \<le> 0)
   \<and> handleMouseUp (Some canvas_800_600) line_selection = Inl IndexSizeError"
proof -
  have w: "\<bar>10 - 10 :: real\<bar> \<le> 0 \<or> \<bar>50 - 10 :: real\<bar> \<le> 0" by simp
  from capture_degenerate [OF line_selection_fields w, of canvas_800_600]
  show ?thesis by (simp add: line_selection_fields)
qed

text \<open>
  C7. For a positive scale (any double, \<open>Infinity\<close> included) and a canvas of positive
  width and height, a selection
  whose normalised rectangle is the whole canvas (left and top 0, width and height
  those of the canvas) is captured with the live \<open>zoom\<close> as its scale and the live
  \<open>(centerX, centerY)\<close> as its centre.
\<close>

theorem capture_full_buffer:
  assumes "isSelectingArea s"
    and "selectionStart s = Some (startX, startY)"
    and "selectionEnd s = Some (endX, endY)"
    and "min startX endX = 0" and "min startY endY = 0"
    and "\<bar>endX - startX\<bar> = real (canvas_width cv)"
    and "\<bar>endY - startY\<bar> = real (canvas_height cv)"
    and "0 < canvas_width cv" and "0 < canvas_height cv"
    and "positive_number (zoom s)" and "representable (zoom s)"
  shows "handleMouseUp (Some cv) s
         = Inr (s\<lparr> isSelectingArea := False, selectionStart := None, selectionEnd := None \<rparr>,
                Some \<lparr> imageData = (0, 0, int (canvas_width cv), int (canvas_height cv)),
                       selectionCenterX = centerX s,
                       selectionCenterY = centerY s,
                       selectionZoom = zoom s \<rparr>)"
proof -
  have g: "getImageData 0 0 (real (canvas_width cv)) (real (canvas_height cv))
           = Inr (0, 0, int (canvas_width cv), int (canvas_height cv))"
    using assms(8,9) by (simp add: getImageData_def to_long_def)
  have d: "divided_by 0 (zoom s) = 0" by (cases "zoom s") simp_all
  have t: "number_times (zoom s) 1 = zoom s"
    using assms(11) by (cases "zoom s") simp_all
  show ?thesis
    using assms(1-9) g d t by (simp add: handleMouseUp_def Let_def)
qed

theorem capture_full_buffer_witness:
  "isSelectingArea full_selection
   \<and> selectionStart full_selection = Some (0, 0)
   \<and> selectionEnd full_selection = Some (800, 600)
   \<and> 0 < canvas_width canvas_800_600 \<and> 0 < canvas_height canvas_800_600
   \<and> positive_number (zoom full_selection) \<and> representable (zoom full_selection)
   \<and> handleMouseUp (Some canvas_800_600) full_selection
     = Inr (full_selection\<lparr> isSelectingArea := False, selectionStart := None,
                              selectionEnd := None \<rparr>,
            Some \<lparr> imageData = (0, 0, 800, 600),
                   selectionCenterX = 0, selectionCenterY = 0, selectionZoom = Num 200 \<rparr>)"
proof -
  have c: "canvas_width canvas_800_600 = 800" "canvas_height canvas_800_600 = 600"
    by (simp_all add: canvas_800_600_def)
  have "handleMouseUp (Some canvas_800_600) full_selection
        = Inr (full_selection\<lparr> isSelectingArea := False, selectionStart := None,
                                 selectionEnd := None \<rparr>,
               Some \<lparr> imageData = (0, 0, int (canvas_width canvas_800_600),
                                    int (canvas_height canvas_800_600)),
                      selectionCenterX = centerX full_selection,
                      selectionCenterY = centerY full_selection,
                      selectionZoom = zoom full_selection \<rparr>)"
    by (rule capture_full_buffer [OF full_selection_fields(1-3)])
       (simp_all add: c full_selection_fields overflow_bound_def)
  then show ?thesis by (simp add: c full_selection_fields overflow_bound_def)
qed

subsection \<open>Selection mode blocks navigation\<close>

text \<open>
  C10. While \<open>isSelectingArea\<close> is true, the click handler \<open>handleZoom\<close> changes nothing:
  centre, zoom, iteration budget and history (and every other cell) are as before.
\<close>

theorem handleZoom_selecting_noop:
  "isSelectingArea s \<Longrightarrow> handleZoom canvasRef e s = s"
  by (simp add: handleZoom_def)

theorem handleZoom_selecting_noop_witness:
  "isSelectingArea (toggleSelectArea initial)
   \<and> handleZoom (Some canvas_800_600)
        \<lparr> clientX = 400, clientY = 300 \<rparr> (toggleSelectArea initial)
     = toggleSelectArea initial"
proof -
  have sel: "isSelectingArea (toggleSelectArea initial)"
    by (simp add: toggleSelectArea_def initial_def)
  from handleZoom_selecting_noop [OF sel] sel show ?thesis by simp
qed


end
